theory Spec2Isabelle
  imports Complex_Main "HOL-Library.AList"
begin

section \<open>Values and dictionaries\<close>

text \<open>
  The search code handles JSON documents as Python dictionaries with string keys
  (\<^verbatim>\<open>Dict[str, Any]\<close>).  A dictionary is an association list: Python keeps the
  insertion order, \<^verbatim>\<open>d[k] = v\<close> overwrites the entry of \<open>k\<close> in place or appends a new
  one, which is \<^const>\<open>AList.update\<close>; \<^verbatim>\<open>d.get(k)\<close> is \<^const>\<open>map_of\<close>, with
  \<open>None\<close> for an absent key.  Numbers (int, float, Decimal) are rationals.
\<close>

datatype val =
    VNone
  | VBool bool
  | VNum rat
  | VStr string
  | VList "val list"
  | VDict "(string \<times> val) list"

type_synonym pydict = "(string \<times> val) list"

text \<open>Python truthiness of a value, and of the result of \<^verbatim>\<open>d.get(k)\<close>.\<close>

fun truthy :: "val \<Rightarrow> bool" where
  "truthy VNone = False"
| "truthy (VBool b) = b"
| "truthy (VNum r) = (r \<noteq> 0)"
| "truthy (VStr s) = (s \<noteq> [])"
| "truthy (VList vs) = (vs \<noteq> [])"
| "truthy (VDict d) = (d \<noteq> [])"

definition truthy_opt :: "val option \<Rightarrow> bool" where
  "truthy_opt v = (case v of None \<Rightarrow> False | Some x \<Rightarrow> truthy x)"

section \<open>Enumerations (models/enums.py)\<close>

datatype LanguageCode =
  HINDI | ENGLISH | TAMIL | TELUGU | BENGALI | MARATHI | GUJARATI | KANNADA | MALAYALAM | PUNJABI

fun language_value :: "LanguageCode \<Rightarrow> string" where
  "language_value HINDI = ''hi''"
| "language_value ENGLISH = ''en''"
| "language_value TAMIL = ''ta''"
| "language_value TELUGU = ''te''"
| "language_value BENGALI = ''bn''"
| "language_value MARATHI = ''mr''"
| "language_value GUJARATI = ''gu''"
| "language_value KANNADA = ''kn''"
| "language_value MALAYALAM = ''ml''"
| "language_value PUNJABI = ''pa''"

datatype AvailabilityStatus =
  AVAILABLE | LIMITED_STOCK | OUT_OF_STOCK | SEASONAL | DISCONTINUED | PRE_ORDER

datatype QualityGrade = PREMIUM | STANDARD | ECONOMY | ORGANIC | FAIR_TRADE

section \<open>The product record (models/product.py)\<close>

text \<open>
  The columns of \<^verbatim>\<open>Product\<close> that its mutating methods read or write.  A JSON column
  may hold \<^verbatim>\<open>None\<close> in memory, which the methods test for, so those fields are
  options.  \<^verbatim>\<open>stock_quantity\<close> is a \<^verbatim>\<open>Decimal\<close> (column \<^verbatim>\<open>Numeric(10, 2)\<close>),
  modelled by its rational value; timestamps are seconds.
\<close>

type_synonym datetime = int

record product =
  names :: "(string \<times> string) list option"
  descriptions :: "(string \<times> string) list option"
  images :: "string list option"
  tags :: "string list option"
  search_keywords :: "string list option"
  attributes :: "pydict option"
  stock_quantity :: "rat option"
  availability_status :: AvailabilityStatus
  elasticsearch_synced_at :: "datetime option"
  elasticsearch_sync_version :: int

definition mark_for_elasticsearch_sync :: "product \<Rightarrow> product" where
  "mark_for_elasticsearch_sync p =
     p\<lparr>elasticsearch_sync_version := elasticsearch_sync_version p + 1,
       elasticsearch_synced_at := None\<rparr>"

text \<open>\<^verbatim>\<open>x if x is not None else default\<close>, the shape of every \<^verbatim>\<open>if self.f is None\<close> guard.\<close>

definition or_default :: "'a option \<Rightarrow> 'a \<Rightarrow> 'a" where
  "or_default x d = (case x of None \<Rightarrow> d | Some y \<Rightarrow> y)"

definition set_name :: "product \<Rightarrow> LanguageCode \<Rightarrow> string \<Rightarrow> product" where
  "set_name p lang name =
     mark_for_elasticsearch_sync
       (p\<lparr>names := Some (AList.update (language_value lang) name (or_default (names p) []))\<rparr>)"

definition set_description :: "product \<Rightarrow> LanguageCode \<Rightarrow> string \<Rightarrow> product" where
  "set_description p lang description =
     mark_for_elasticsearch_sync
       (p\<lparr>descriptions :=
            Some (AList.update (language_value lang) description (or_default (descriptions p) []))\<rparr>)"

definition add_image :: "product \<Rightarrow> string \<Rightarrow> product" where
  "add_image p image_url =
     (let imgs = or_default (images p) []; p1 = p\<lparr>images := Some imgs\<rparr>
      in if image_url \<notin> set imgs
         then mark_for_elasticsearch_sync (p1\<lparr>images := Some (imgs @ [image_url])\<rparr>)
         else p1)"

definition add_tag :: "product \<Rightarrow> string \<Rightarrow> product" where
  "add_tag p tag =
     (let ts = or_default (tags p) []; p1 = p\<lparr>tags := Some ts\<rparr>
      in if tag \<notin> set ts
         then mark_for_elasticsearch_sync (p1\<lparr>tags := Some (ts @ [tag])\<rparr>)
         else p1)"

definition add_search_keyword :: "product \<Rightarrow> string \<Rightarrow> product" where
  "add_search_keyword p keyword =
     (let ks = or_default (search_keywords p) []; p1 = p\<lparr>search_keywords := Some ks\<rparr>
      in if keyword \<notin> set ks
         then mark_for_elasticsearch_sync (p1\<lparr>search_keywords := Some (ks @ [keyword])\<rparr>)
         else p1)"

definition set_attribute :: "product \<Rightarrow> string \<Rightarrow> val \<Rightarrow> product" where
  "set_attribute p k v =
     mark_for_elasticsearch_sync
       (p\<lparr>attributes := Some (AList.update k v (or_default (attributes p) []))\<rparr>)"

definition update_stock :: "product \<Rightarrow> rat \<Rightarrow> product" where
  "update_stock p new_quantity =
     mark_for_elasticsearch_sync
       (p\<lparr>stock_quantity := Some new_quantity,
          availability_status :=
            (if new_quantity \<le> 0 then OUT_OF_STOCK
             else if new_quantity \<le> 10 then LIMITED_STOCK
             else AVAILABLE)\<rparr>)"

text \<open>
  A product as \<^verbatim>\<open>Product.__init__\<close> leaves it: empty collections, no stock figure,
  available, never synchronised, sync version 1.
\<close>

definition new_product :: product where
  "new_product =
     \<lparr>names = Some [], descriptions = Some [], images = Some [], tags = Some [],
      search_keywords = Some [], attributes = Some [], stock_quantity = None,
      availability_status = AVAILABLE, elasticsearch_synced_at = None,
      elasticsearch_sync_version = 1\<rparr>"

section \<open>The quality hierarchy of the recommendation engine (search/product\_search.py)\<close>

definition quality_hierarchy :: "(string \<times> string list) list" where
  "quality_hierarchy =
     [(''economy'', [''economy'', ''standard'', ''premium'', ''organic'']),
      (''standard'', [''standard'', ''premium'', ''organic'']),
      (''premium'', [''premium'', ''organic'']),
      (''organic'', [''organic'', ''premium'']),
      (''fair_trade'', [''fair_trade'', ''organic'', ''premium''])]"

definition get_quality_alternatives :: "string \<Rightarrow> string list" where
  "get_quality_alternatives current_quality =
     (case map_of quality_hierarchy current_quality of
        None \<Rightarrow> [''standard'', ''premium'']
      | Some grades \<Rightarrow> grades)"

section \<open>Sort criteria (ProductSearchService.\_build\_sort\_criteria)\<close>

text \<open>
  One entry of the sort list handed to the store: a field with its order
  (\<^verbatim>\<open>{"base_price": {"order": "asc"}}\<close>), a geo-distance key (coordinates, order,
  unit) or a script key (script source, order).
\<close>

datatype sort_order = Asc | Desc

datatype sort_key =
    Field_sort string sort_order
  | Geo_distance_sort val sort_order string
  | Script_sort string sort_order

text \<open>
  The source of the script that ranks the quality grades, shortened to its last line; the
  store runs it, the code only carries it.
\<close>

definition quality_script :: string where
  "quality_script = ''quality_scores.getOrDefault(doc[quality_grade].value, 2)''"

definition build_sort_criteria :: "string \<Rightarrow> pydict option \<Rightarrow> sort_key list" where
  "build_sort_criteria sort_by location =
     (let sort_criteria =
        (if sort_by = ''price_asc'' then [Field_sort ''base_price'' Asc]
         else if sort_by = ''price_desc'' then [Field_sort ''base_price'' Desc]
         else if sort_by = ''date_desc'' then [Field_sort ''created_at'' Desc]
         else if sort_by = ''date_asc'' then [Field_sort ''created_at'' Asc]
         else if sort_by = ''updated_desc'' then [Field_sort ''updated_at'' Desc]
         else if sort_by = ''trending'' then
           [Field_sort ''is_featured'' Desc, Field_sort ''updated_at'' Desc,
            Field_sort ''_score'' Desc]
         else if sort_by = ''distance'' \<and> or_default location [] \<noteq> [] \<and>
                 truthy_opt (map_of (or_default location []) ''coordinates'') then
           [Geo_distance_sort
              (or_default (map_of (or_default location []) ''coordinates'') VNone) Asc ''km'']
         else if sort_by = ''quality_desc'' then [Script_sort quality_script Desc]
         else []);
        sort_criteria =
          (if sort_by \<noteq> ''relevance'' then sort_criteria @ [Field_sort ''_score'' Desc]
           else sort_criteria)
      in sort_criteria @ [Field_sort ''created_at'' Desc])"

section \<open>Store responses and exceptions\<close>

text \<open>
  Exceptions are values.  \<open>Raised\<close> is any exception of a collaborator (the store, the
  query builder), with its message.
\<close>

datatype exn = KeyError string | TypeError string | ZeroDivisionError | Raised string

fun str_exn :: "exn \<Rightarrow> string" where
  "str_exn (KeyError k) = CHR 0x27 # k @ [CHR 0x27]"
| "str_exn (TypeError m) = m"
| "str_exn ZeroDivisionError = ''integer division or modulo by zero''"
| "str_exn (Raised m) = m"

text \<open>
  The response of the store, \<^verbatim>\<open>{hits: {total: {value}, hits: [{_source, _score}]},
  aggregations}\<close>.  Every key the code reads with \<^verbatim>\<open>.get\<close> or \<^verbatim>\<open>[...]\<close> is an
  option, \<open>None\<close> for an absent key; \<open>hits_total\<close> is the value at the end of the path
  \<^verbatim>\<open>hits.total.value\<close>.  The key \<^verbatim>\<open>error\<close> that the store adapter adds to an empty
  response when its client fails is not part of the record: \<^verbatim>\<open>search_products\<close> never
  reads it.
\<close>

record hit =
  hit_source :: "pydict option"
  hit_score :: "val option"

record bucket =
  bucket_key :: "val option"
  doc_count :: "val option"

record agg_data =
  buckets :: "bucket list option"
  agg_min :: "val option"
  agg_max :: "val option"
  agg_avg :: "val option"

record response =
  hits_total :: "int option"
  hits_hits :: "hit list option"
  aggregations :: "(string \<times> agg_data) list option"

section \<open>Result processing\<close>

text \<open>\<^verbatim>\<open>score > c\<close> for a number \<open>c\<close>: defined on numbers and booleans, a TypeError otherwise.\<close>

definition py_gt :: "val \<Rightarrow> rat \<Rightarrow> exn + bool" where
  "py_gt v c =
     (case v of
        VNum r \<Rightarrow> Inr (c < r)
      | VBool b \<Rightarrow> Inr (c < (if b then 1 else 0))
      | _ \<Rightarrow> Inl (TypeError ''> not supported between these instances''))"

definition explain_relevance :: "hit \<Rightarrow> string \<Rightarrow> exn + string list" where
  "explain_relevance h query =
     (let score = or_default (hit_score h) (VNum 0) in
      case hit_source h of
        None \<Rightarrow> Inl (KeyError ''_source'')
      | Some product \<Rightarrow>
          (case (case py_gt score 5 of
                   Inl e \<Rightarrow> Inl e
                 | Inr True \<Rightarrow> Inr [''High relevance match'']
                 | Inr False \<Rightarrow>
                     (case py_gt score 2 of
                        Inl e \<Rightarrow> Inl e
                      | Inr True \<Rightarrow> Inr [''Good relevance match'']
                      | Inr False \<Rightarrow> Inr [''Basic match''])) of
             Inl e \<Rightarrow> Inl e
           | Inr factors \<Rightarrow>
               Inr (factors
                 @ (if truthy_opt (map_of product ''is_featured'')
                    then [''Featured product''] else [])
                 @ (if map_of product ''quality_grade'' \<in> {Some (VStr ''premium''), Some (VStr ''organic'')}
                    then [''High quality''] else [])
                 @ (if map_of product ''availability_status'' = Some (VStr ''available'')
                    then [''In stock''] else []))))"

text \<open>
  The loop over the hits of \<^verbatim>\<open>search_products\<close>, with its two result lists as
  accumulators.  Each document gets the keys \<^verbatim>\<open>_score\<close> and
  \<^verbatim>\<open>relevance_factors\<close> and goes to one of the lists.
\<close>

fun process_hits ::
  "string \<Rightarrow> hit list \<Rightarrow> pydict list \<Rightarrow> pydict list \<Rightarrow> exn + (pydict list \<times> pydict list)"
where
  "process_hits query [] products out_of_stock_products =
     Inr (products, out_of_stock_products)"
| "process_hits query (h # hs) products out_of_stock_products =
     (case hit_source h of
        None \<Rightarrow> Inl (KeyError ''_source'')
      | Some product0 \<Rightarrow>
          (let product1 = AList.update ''_score'' (or_default (hit_score h) (VNum 0)) product0 in
           case explain_relevance (h\<lparr>hit_source := Some product1\<rparr>) query of
             Inl e \<Rightarrow> Inl e
           | Inr factors \<Rightarrow>
               (let product = AList.update ''relevance_factors'' (VList (map VStr factors)) product1 in
                if map_of product ''availability_status'' = Some (VStr ''out_of_stock'')
                then process_hits query hs products (out_of_stock_products @ [product])
                else process_hits query hs (products @ [product]) out_of_stock_products)))"

fun bucket_entries :: "bucket list \<Rightarrow> exn + val list" where
  "bucket_entries [] = Inr []"
| "bucket_entries (b # bs) =
     (case bucket_key b of
        None \<Rightarrow> Inl (KeyError ''key'')
      | Some k \<Rightarrow>
          (case doc_count b of
             None \<Rightarrow> Inl (KeyError ''doc_count'')
           | Some c \<Rightarrow>
               (case bucket_entries bs of
                  Inl e \<Rightarrow> Inl e
                | Inr rest \<Rightarrow> Inr (VDict [(''key'', k), (''count'', c)] # rest))))"

fun process_aggregations :: "(string \<times> agg_data) list \<Rightarrow> pydict \<Rightarrow> exn + pydict" where
  "process_aggregations [] facets = Inr facets"
| "process_aggregations ((agg_name, data) # rest) facets =
     (case buckets data of
        Some bs \<Rightarrow>
          (case bucket_entries bs of
             Inl e \<Rightarrow> Inl e
           | Inr entries \<Rightarrow>
               process_aggregations rest (AList.update agg_name (VList entries) facets))
      | None \<Rightarrow>
          if agg_name = ''price_stats''
          then process_aggregations rest
                 (AList.update agg_name
                    (VDict [(''min'', or_default (agg_min data) VNone),
                            (''max'', or_default (agg_max data) VNone),
                            (''avg'', or_default (agg_avg data) VNone)]) facets)
          else process_aggregations rest facets)"

section \<open>The search orchestrator (ProductSearchService.search\_products)\<close>

text \<open>
  What \<^verbatim>\<open>search_products\<close> calls and the claims do not look into is a parameter:
  the query builder (its result is handed to the store unread, and it may raise), the
  store's \<^verbatim>\<open>search\<close> (size, offset and sort list are its arguments here; it may
  raise), and the two helpers \<^verbatim>\<open>get_alternative_products\<close> and
  \<^verbatim>\<open>get_search_suggestions\<close>.  In the source the helpers query the same store again
  (for alternatives with the given limit at offset 0, for suggestions with size 6 at
  offset 0) and shield their own failures, so each returns a list whatever happens.  Here
  they are functions of their own: a statement about \<open>search_products\<close> holds for whatever
  lists they return, and no statement below takes them to be independent of the store.
\<close>

record 'q collaborators =
  build_enhanced_search_query ::
    "string \<Rightarrow> LanguageCode \<Rightarrow> pydict option \<Rightarrow> pydict option \<Rightarrow> (rat \<times> rat) option \<Rightarrow>
     QualityGrade list option \<Rightarrow> AvailabilityStatus list option \<Rightarrow> bool \<Rightarrow> exn + 'q"
  es_search :: "'q \<Rightarrow> int \<Rightarrow> int \<Rightarrow> sort_key list \<Rightarrow> exn + response"
  get_alternative_products :: "val \<Rightarrow> pydict option \<Rightarrow> int \<Rightarrow> pydict list"
  get_search_suggestions :: "string \<Rightarrow> LanguageCode \<Rightarrow> int \<Rightarrow> string list"

record search_metadata =
  md_query :: string
  md_language :: string
  filters_applied :: nat
  location_boost :: bool
  alternatives_included :: bool

text \<open>
  The result envelope.  \<open>res_search_metadata\<close> and \<open>res_error\<close> are the two keys that
  only one of the two return statements writes.
\<close>

record envelope =
  res_products :: "pydict list"
  res_out_of_stock :: "pydict list"
  res_alternatives :: "pydict list"
  res_suggestions :: "string list"
  res_facets :: pydict
  res_total :: int
  res_page :: int
  res_page_size :: int
  res_total_pages :: int
  res_has_next :: bool
  res_has_prev :: bool
  res_search_metadata :: "search_metadata option"
  res_error :: "string option"

text \<open>The loop over the first out-of-stock documents, extending \<open>alternatives\<close>.\<close>

fun collect_alternatives ::
  "'q collaborators \<Rightarrow> pydict option \<Rightarrow> pydict list \<Rightarrow> pydict list \<Rightarrow> exn + pydict list"
where
  "collect_alternatives env location [] alternatives = Inr alternatives"
| "collect_alternatives env location (oos_product # rest) alternatives =
     (case map_of oos_product ''id'' of
        None \<Rightarrow> Inl (KeyError ''id'')
      | Some oos_id \<Rightarrow>
          (let product_alternatives = get_alternative_products env oos_id location 2 in
           collect_alternatives env location rest
             (if product_alternatives \<noteq> [] then alternatives @ product_alternatives
              else alternatives)))"

definition from_index :: "int \<Rightarrow> int \<Rightarrow> int" where
  "from_index page page_size = (page - 1) * page_size"

text \<open>
  The \<^verbatim>\<open>try\<close> block after the store has answered, from \<^verbatim>\<open># Process results\<close>
  to the \<^verbatim>\<open>return\<close>: what is made of the response.  \<open>Inl\<close> is an exception raised
  on the way.  Of \<open>env\<close> it reads the two helpers only.
\<close>

definition process_results ::
  "'q collaborators \<Rightarrow> string \<Rightarrow> LanguageCode \<Rightarrow> pydict option \<Rightarrow> pydict option \<Rightarrow>
   int \<Rightarrow> int \<Rightarrow> bool \<Rightarrow> bool \<Rightarrow> response \<Rightarrow> exn + envelope"
where
  "process_results env query language filters location page page_size include_alternatives
       boost_local response =
     (let total = or_default (hits_total response) 0 in
      case process_hits query (or_default (hits_hits response) []) [] [] of
        Inl e \<Rightarrow> Inl e
      | Inr (products, out_of_stock_products) \<Rightarrow>
     (case (if include_alternatives \<and> out_of_stock_products \<noteq> []
            then collect_alternatives env location (take 3 out_of_stock_products) []
            else Inr []) of
        Inl e \<Rightarrow> Inl e
      | Inr alternatives \<Rightarrow>
     (let suggestions =
            (if total < 5 \<and> query \<noteq> [] then get_search_suggestions env query language 3
             else []) in
      case process_aggregations (or_default (aggregations response) []) [] of
        Inl e \<Rightarrow> Inl e
      | Inr facets \<Rightarrow>
          if page_size = 0 then Inl ZeroDivisionError
          else Inr
            \<lparr>res_products = products,
             res_out_of_stock = out_of_stock_products,
             res_alternatives = alternatives,
             res_suggestions = suggestions,
             res_facets = facets,
             res_total = total,
             res_page = page,
             res_page_size = page_size,
             res_total_pages = (total + page_size - 1) div page_size,
             res_has_next = (page * page_size < total),
             res_has_prev = (1 < page),
             res_search_metadata =
               Some \<lparr>md_query = query, md_language = language_value language,
                     filters_applied = length (or_default filters []),
                     location_boost = boost_local,
                     alternatives_included = include_alternatives\<rparr>,
             res_error = None\<rparr>)))"

text \<open>
  The body of the \<^verbatim>\<open>try\<close> block: the query is built, the store is asked for
  \<open>page_size\<close> hits from \<open>from_index\<close> on, and the response is processed.  \<open>Inl\<close> is an
  exception raised inside it.
\<close>

definition search_products_try ::
  "'q collaborators \<Rightarrow> string \<Rightarrow> LanguageCode \<Rightarrow> pydict option \<Rightarrow> pydict option \<Rightarrow>
   (rat \<times> rat) option \<Rightarrow> QualityGrade list option \<Rightarrow> AvailabilityStatus list option \<Rightarrow>
   int \<Rightarrow> int \<Rightarrow> string \<Rightarrow> bool \<Rightarrow> bool \<Rightarrow> exn + envelope"
where
  "search_products_try env query language filters location price_range quality_grades
       availability_statuses page page_size sort_by include_alternatives boost_local =
     (case build_enhanced_search_query env query language filters location price_range
             quality_grades availability_statuses boost_local of
        Inl e \<Rightarrow> Inl e
      | Inr search_query \<Rightarrow>
     (case es_search env search_query page_size (from_index page page_size)
             (build_sort_criteria sort_by location) of
        Inl e \<Rightarrow> Inl e
      | Inr response \<Rightarrow>
          process_results env query language filters location page page_size
            include_alternatives boost_local response))"

text \<open>What the \<^verbatim>\<open>except Exception\<close> handler returns.\<close>

definition error_envelope :: "int \<Rightarrow> int \<Rightarrow> exn \<Rightarrow> envelope" where
  "error_envelope page page_size e =
     \<lparr>res_products = [], res_out_of_stock = [], res_alternatives = [], res_suggestions = [],
      res_facets = [], res_total = 0, res_page = page, res_page_size = page_size,
      res_total_pages = 0, res_has_next = False, res_has_prev = False,
      res_search_metadata = None, res_error = Some (str_exn e)\<rparr>"

definition search_products ::
  "'q collaborators \<Rightarrow> string \<Rightarrow> LanguageCode \<Rightarrow> pydict option \<Rightarrow> pydict option \<Rightarrow>
   (rat \<times> rat) option \<Rightarrow> QualityGrade list option \<Rightarrow> AvailabilityStatus list option \<Rightarrow>
   int \<Rightarrow> int \<Rightarrow> string \<Rightarrow> bool \<Rightarrow> bool \<Rightarrow> envelope"
where
  "search_products env query language filters location price_range quality_grades
       availability_statuses page page_size sort_by include_alternatives boost_local =
     (case search_products_try env query language filters location price_range quality_grades
             availability_statuses page page_size sort_by include_alternatives boost_local of
        Inr result \<Rightarrow> result
      | Inl e \<Rightarrow> error_envelope page page_size e)"

section \<open>Example stores\<close>

text \<open>
  Concrete collaborators for the examples below.  The built query is the query text
  itself; the helper for suggestions finds nothing.
\<close>

definition example_doc :: "string \<Rightarrow> string \<Rightarrow> pydict" where
  "example_doc i status = [(''id'', VStr i), (''availability_status'', VStr status)]"

definition example_hit :: "pydict \<Rightarrow> val \<Rightarrow> hit" where
  "example_hit d s = \<lparr>hit_source = Some d, hit_score = Some s\<rparr>"

definition example_env ::
  "(string \<Rightarrow> int \<Rightarrow> int \<Rightarrow> sort_key list \<Rightarrow> exn + response) \<Rightarrow> string collaborators" where
  "example_env store =
     \<lparr>build_enhanced_search_query =
        (\<lambda>query language filters location price_range quality_grades availability_statuses
            boost_local. Inr query),
      es_search = store,
      get_alternative_products =
        (\<lambda>oos_id location limit. [example_doc ''barley'' ''available'']),
      get_search_suggestions = (\<lambda>query language limit. [])\<rparr>"

text \<open>
  A store with 45 matches whose page holds one available and two out-of-stock
  documents; the alternative found for either out-of-stock document is the same one.
\<close>

definition shop_response :: response where
  "shop_response =
     \<lparr>hits_total = Some 45,
      hits_hits = Some [example_hit (example_doc ''rice'' ''available'') (VNum 3),
                        example_hit (example_doc ''wheat'' ''out_of_stock'') (VNum 2),
                        example_hit (example_doc ''maize'' ''out_of_stock'') (VNum 1)],
      aggregations = None\<rparr>"

definition shop_env :: "string collaborators" where
  "shop_env = example_env (\<lambda>search_query sz offset srt. Inr shop_response)"

text \<open>
  A store that returns one hit whose \<^verbatim>\<open>_score\<close> is \<^verbatim>\<open>null\<close>, as a document store
  does when the sort list has no score key.
\<close>

definition unscored_response :: response where
  "unscored_response =
     \<lparr>hits_total = Some 1,
      hits_hits = Some [example_hit (example_doc ''rice'' ''available'') VNone],
      aggregations = None\<rparr>"

definition unscored_env :: "string collaborators" where
  "unscored_env = example_env (\<lambda>search_query sz offset srt. Inr unscored_response)"

text \<open>A store that reports the offset it was asked for as the total, with no hits.\<close>

definition echo_env :: "string collaborators" where
  "echo_env =
     example_env (\<lambda>search_query sz offset srt.
       Inr \<lparr>hits_total = Some offset, hits_hits = Some [], aggregations = None\<rparr>)"

text \<open>A store that is down.\<close>

definition down_env :: "string collaborators" where
  "down_env = example_env (\<lambda>search_query sz offset srt. Inl (Raised ''connection refused''))"

text \<open>A product that has been synchronised, with one entry in every collection.\<close>

definition synced_product :: product where
  "synced_product =
     \<lparr>names = Some [(''en'', ''Rice'')], descriptions = Some [(''en'', ''Basmati'')],
      images = Some [''rice.png''], tags = Some [''grain''],
      search_keywords = Some [''basmati''], attributes = Some [(''origin'', VStr ''Punjab'')],
      stock_quantity = Some 50, availability_status = AVAILABLE,
      elasticsearch_synced_at = Some 1700000000, elasticsearch_sync_version = 4\<rparr>"

text \<open>
  The hierarchy as the specification declares it, as the list of the pairs (source grade,
  eligible grade).
\<close>

definition declared_alternatives :: "(string \<times> string) list" where
  "declared_alternatives =
     [(''economy'', ''economy''), (''economy'', ''standard''), (''economy'', ''premium''),
      (''economy'', ''organic''),
      (''standard'', ''standard''), (''standard'', ''premium''), (''standard'', ''organic''),
      (''premium'', ''premium''), (''premium'', ''organic''),
      (''organic'', ''organic''), (''organic'', ''premium''),
      (''fair_trade'', ''fair_trade''), (''fair_trade'', ''organic''),
      (''fair_trade'', ''premium'')]"

section \<open>Stock updates and synchronisation marks\<close>

lemma mark_version:
  "elasticsearch_sync_version (mark_for_elasticsearch_sync p) = elasticsearch_sync_version p + 1"
  by (simp add: mark_for_elasticsearch_sync_def)

lemma mark_synced_at:
  "elasticsearch_synced_at (mark_for_elasticsearch_sync p) = None"
  by (simp add: mark_for_elasticsearch_sync_def)

lemma mark_tags: "tags (mark_for_elasticsearch_sync p) = tags p"
  by (simp add: mark_for_elasticsearch_sync_def)

text \<open>
  C2.  A stock update stores the new quantity and derives the availability from it:
  out of stock at or below zero, limited stock up to ten, available above ten.
\<close>

theorem update_stock_availability:
  "(q \<le> 0 \<longrightarrow> availability_status (update_stock p q) = OUT_OF_STOCK) \<and>
   (0 < q \<and> q \<le> 10 \<longrightarrow> availability_status (update_stock p q) = LIMITED_STOCK) \<and>
   (10 < q \<longrightarrow> availability_status (update_stock p q) = AVAILABLE) \<and>
   stock_quantity (update_stock p q) = Some q"
  by (simp add: update_stock_def mark_for_elasticsearch_sync_def)

theorem update_stock_availability_witness:
  "((0::rat) \<le> 0 \<and> availability_status (update_stock new_product 0) = OUT_OF_STOCK) \<and>
   ((0::rat) < 5 \<and> (5::rat) \<le> 10 \<and>
      availability_status (update_stock new_product 5) = LIMITED_STOCK) \<and>
   ((10::rat) < 50 \<and> availability_status (update_stock new_product 50) = AVAILABLE) \<and>
   stock_quantity (update_stock new_product 5) = Some 5"
  using update_stock_availability [of 0 new_product]
    update_stock_availability [of 5 new_product]
    update_stock_availability [of 50 new_product]
  by simp

text \<open>
  C10.  Every call of a scalar setter (\<open>set_name\<close>, \<open>set_description\<close>,
  \<open>set_attribute\<close>, \<open>update_stock\<close>) raises the sync version by exactly one and clears
  the time of the last synchronisation, whatever value it writes; adding a tag, image or
  keyword that the product already has leaves both fields as they were.
\<close>

theorem setters_mark_for_sync:
  "(elasticsearch_sync_version (set_name p lang name) = elasticsearch_sync_version p + 1 \<and>
    elasticsearch_synced_at (set_name p lang name) = None) \<and>
   (elasticsearch_sync_version (set_description p lang description) =
      elasticsearch_sync_version p + 1 \<and>
    elasticsearch_synced_at (set_description p lang description) = None) \<and>
   (elasticsearch_sync_version (set_attribute p k v) = elasticsearch_sync_version p + 1 \<and>
    elasticsearch_synced_at (set_attribute p k v) = None) \<and>
   (elasticsearch_sync_version (update_stock p q) = elasticsearch_sync_version p + 1 \<and>
    elasticsearch_synced_at (update_stock p q) = None) \<and>
   (tag \<in> set (or_default (tags p) []) \<longrightarrow>
      elasticsearch_sync_version (add_tag p tag) = elasticsearch_sync_version p \<and>
      elasticsearch_synced_at (add_tag p tag) = elasticsearch_synced_at p) \<and>
   (image_url \<in> set (or_default (images p) []) \<longrightarrow>
      elasticsearch_sync_version (add_image p image_url) = elasticsearch_sync_version p \<and>
      elasticsearch_synced_at (add_image p image_url) = elasticsearch_synced_at p) \<and>
   (keyword \<in> set (or_default (search_keywords p) []) \<longrightarrow>
      elasticsearch_sync_version (add_search_keyword p keyword) = elasticsearch_sync_version p \<and>
      elasticsearch_synced_at (add_search_keyword p keyword) = elasticsearch_synced_at p)"
  by (simp add: set_name_def set_description_def set_attribute_def update_stock_def
      add_tag_def add_image_def add_search_keyword_def Let_def mark_for_elasticsearch_sync_def)

text \<open>
  The witness writes the values the product already holds: the four setters still move
  the version from 4 to 5 and clear the timestamp, the three duplicate adds do nothing.
\<close>

theorem setters_mark_for_sync_witness:
  "(elasticsearch_sync_version (set_name synced_product ENGLISH ''Rice'') = 5 \<and>
    elasticsearch_synced_at (set_name synced_product ENGLISH ''Rice'') = None) \<and>
   (elasticsearch_sync_version (set_description synced_product ENGLISH ''Basmati'') = 5 \<and>
    elasticsearch_synced_at (set_description synced_product ENGLISH ''Basmati'') = None) \<and>
   (elasticsearch_sync_version (set_attribute synced_product ''origin'' (VStr ''Punjab'')) = 5 \<and>
    elasticsearch_synced_at (set_attribute synced_product ''origin'' (VStr ''Punjab'')) = None) \<and>
   (elasticsearch_sync_version (update_stock synced_product 50) = 5 \<and>
    elasticsearch_synced_at (update_stock synced_product 50) = None) \<and>
   (''grain'' \<in> set (or_default (tags synced_product) []) \<and>
    elasticsearch_sync_version (add_tag synced_product ''grain'') = 4 \<and>
    elasticsearch_synced_at (add_tag synced_product ''grain'') = Some 1700000000) \<and>
   (''rice.png'' \<in> set (or_default (images synced_product) []) \<and>
    elasticsearch_sync_version (add_image synced_product ''rice.png'') = 4 \<and>
    elasticsearch_synced_at (add_image synced_product ''rice.png'') = Some 1700000000) \<and>
   (''basmati'' \<in> set (or_default (search_keywords synced_product) []) \<and>
    elasticsearch_sync_version (add_search_keyword synced_product ''basmati'') = 4 \<and>
    elasticsearch_synced_at (add_search_keyword synced_product ''basmati'') = Some 1700000000)"
  using setters_mark_for_sync [of synced_product ENGLISH "''Rice''" "''Basmati''" "''origin''"
      "VStr ''Punjab''" 50 "''grain''" "''rice.png''" "''basmati''"]
  by (simp add: synced_product_def or_default_def)

text \<open>
  C8, as the code has it.  Adding the same tag twice leaves the tag list, and so its length,
  unchanged after the second add.  The sync version moves only when a tag is inserted: the
  first add raises it by one if the tag was absent and not at all if it was present, and
  the second, duplicate add never raises it.
\<close>

theorem add_tag_twice:
  "tags (add_tag (add_tag p tag) tag) = tags (add_tag p tag) \<and>
   length (or_default (tags (add_tag (add_tag p tag) tag)) []) =
     length (or_default (tags (add_tag p tag)) []) \<and>
   elasticsearch_sync_version (add_tag p tag) =
     elasticsearch_sync_version p + (if tag \<in> set (or_default (tags p) []) then 0 else 1) \<and>
   elasticsearch_sync_version (add_tag (add_tag p tag) tag) =
     elasticsearch_sync_version (add_tag p tag)"
  by (simp add: add_tag_def or_default_def Let_def mark_for_elasticsearch_sync_def)

text \<open>
  The claim as stated asks for one increment per call, the duplicate included.  On a new
  product the first add moves the version from 1 to 2, and the second add of the same tag
  does not move it to 3.
\<close>

theorem add_tag_twice_counterexample:
  "elasticsearch_sync_version (add_tag new_product ''fresh'') =
     elasticsearch_sync_version new_product + 1 \<and>
   elasticsearch_sync_version (add_tag (add_tag new_product ''fresh'') ''fresh'') \<noteq>
     elasticsearch_sync_version (add_tag new_product ''fresh'') + 1"
  by (simp add: add_tag_def or_default_def Let_def mark_for_elasticsearch_sync_def
      new_product_def)

section \<open>Alternative-eligible quality grades\<close>

text \<open>
  C9.  For each of the five source grades the eligible grades are exactly those of the
  declared hierarchy, and a grade returned for a source grade of the table is always one
  the declaration lists for that source.
\<close>

theorem quality_alternatives_table:
  "set (get_quality_alternatives ''economy'') =
     {''economy'', ''standard'', ''premium'', ''organic''} \<and>
   set (get_quality_alternatives ''standard'') = {''standard'', ''premium'', ''organic''} \<and>
   set (get_quality_alternatives ''premium'') = {''premium'', ''organic''} \<and>
   set (get_quality_alternatives ''organic'') = {''organic'', ''premium''} \<and>
   set (get_quality_alternatives ''fair_trade'') = {''fair_trade'', ''organic'', ''premium''} \<and>
   (\<forall>source grade.
      source \<in> fst ` set quality_hierarchy \<and> grade \<in> set (get_quality_alternatives source)
      \<longrightarrow> (source, grade) \<in> set declared_alternatives)"
  by (simp add: get_quality_alternatives_def quality_hierarchy_def declared_alternatives_def)

theorem quality_alternatives_table_witness:
  "''fair_trade'' \<in> fst ` set quality_hierarchy \<and>
   ''organic'' \<in> set (get_quality_alternatives ''fair_trade'') \<and>
   (''fair_trade'', ''organic'') \<in> set declared_alternatives"
proof -
  have s: "''fair_trade'' \<in> fst ` set quality_hierarchy"
    by (simp add: quality_hierarchy_def)
  have g: "''organic'' \<in> set (get_quality_alternatives ''fair_trade'')"
    by (simp add: get_quality_alternatives_def quality_hierarchy_def)
  have "(''fair_trade'', ''organic'') \<in> set declared_alternatives"
    by (rule quality_alternatives_table [THEN conjunct2, THEN conjunct2, THEN conjunct2,
          THEN conjunct2, THEN conjunct2, rule_format, OF conjI, OF s g])
  with s g show ?thesis by simp
qed

section \<open>The search orchestrator\<close>

lemmas example_defs =
  example_env_def example_doc_def example_hit_def shop_env_def shop_response_def
  unscored_env_def unscored_response_def echo_env_def down_env_def

lemmas search_defs =
  search_products_def search_products_try_def process_results_def error_envelope_def
  from_index_def
  explain_relevance_def py_gt_def or_default_def truthy_opt_def Let_def

text \<open>Python's \<^verbatim>\<open>(a + b - 1) // b\<close> is the ceiling of \<open>a / b\<close> for a positive \<open>b\<close>.\<close>

lemma ceil_div:
  assumes b: "0 < (b::int)"
  shows "(a + b - 1) div b = \<lceil>real_of_int a / real_of_int b\<rceil>"
proof -
  have "\<lceil>real_of_int a / real_of_int b\<rceil> = - ((- a) div b)"
    by (rule ceiling_divide_eq_div)
  also have "\<dots> = (a + b - 1) div b"
  proof (cases "a mod b = 0")
    case True
    have "a + b - 1 = b * (a div b) + (b - 1)"
      using True mult_div_mod_eq [of b a] by simp
    then have "(a + b - 1) div b = a div b"
      using b by (intro int_div_pos_eq [where r = "b - 1"]) auto
    then show ?thesis
      using True b by (simp add: zdiv_zminus1_eq_if)
  next
    case False
    have m: "0 \<le> a mod b" "a mod b < b"
      using b by auto
    have "a + b - 1 = b * (a div b + 1) + (a mod b - 1)"
      using mult_div_mod_eq [of b a] by (simp add: algebra_simps)
    then have "(a + b - 1) div b = a div b + 1"
      using b False m by (intro int_div_pos_eq [where r = "a mod b - 1"]) auto
    then show ?thesis
      using False b by (simp add: zdiv_zminus1_eq_if)
  qed
  finally show ?thesis by simp
qed

text \<open>The loop over the hits puts every hit in exactly one of the two lists.\<close>

lemma process_hits_Cons:
  assumes "process_hits query (h # hs) ps os = Inr (ps', os')"
  obtains product where
    "map_of product ''availability_status'' = Some (VStr ''out_of_stock'')"
    "process_hits query hs ps (os @ [product]) = Inr (ps', os')"
  | product where
    "map_of product ''availability_status'' \<noteq> Some (VStr ''out_of_stock'')"
    "process_hits query hs (ps @ [product]) os = Inr (ps', os')"
  using assms
  by (auto simp: Let_def split: option.splits sum.splits if_splits)

lemma process_hits_length:
  "process_hits query hs ps os = Inr (ps', os') \<Longrightarrow>
   length ps' + length os' = length ps + length os + length hs"
proof (induction hs arbitrary: ps os)
  case Nil
  then show ?case by simp
next
  case (Cons h hs)
  from Cons.prems show ?case
  proof (cases rule: process_hits_Cons)
    case (1 product)
    from Cons.IH [OF 1(2)] show ?thesis by simp
  next
    case (2 product)
    from Cons.IH [OF 2(2)] show ?thesis by simp
  qed
qed

lemma process_hits_out_of_stock:
  "process_hits query hs ps os = Inr (ps', os') \<Longrightarrow>
   \<forall>p \<in> set os. map_of p ''availability_status'' = Some (VStr ''out_of_stock'') \<Longrightarrow>
   \<forall>p \<in> set os'. map_of p ''availability_status'' = Some (VStr ''out_of_stock'')"
proof (induction hs arbitrary: ps os)
  case Nil
  then show ?case by simp
next
  case (Cons h hs)
  from Cons.prems(1) show ?case
  proof (cases rule: process_hits_Cons)
    case (1 product)
    show ?thesis
      by (rule Cons.IH [OF 1(2)]) (use 1(1) Cons.prems(2) in simp)
  next
    case (2 product)
    show ?thesis
      by (rule Cons.IH [OF 2(2)]) (use Cons.prems(2) in simp)
  qed
qed

lemma process_hits_products:
  "process_hits query hs ps os = Inr (ps', os') \<Longrightarrow>
   \<forall>p \<in> set ps. map_of p ''availability_status'' \<noteq> Some (VStr ''out_of_stock'') \<Longrightarrow>
   \<forall>p \<in> set ps'. map_of p ''availability_status'' \<noteq> Some (VStr ''out_of_stock'')"
proof (induction hs arbitrary: ps os)
  case Nil
  then show ?case by simp
next
  case (Cons h hs)
  from Cons.prems(1) show ?case
  proof (cases rule: process_hits_Cons)
    case (1 product)
    show ?thesis
      by (rule Cons.IH [OF 1(2)]) (use Cons.prems(2) in simp)
  next
    case (2 product)
    show ?thesis
      by (rule Cons.IH [OF 2(2)]) (use 2(1) Cons.prems(2) in simp)
  qed
qed

text \<open>What a completed \<^verbatim>\<open>try\<close> block went through, stage by stage.\<close>

lemma search_products_try_Inr:
  assumes "search_products_try env query language filters location price_range quality_grades
       availability_statuses page page_size sort_by include_alternatives boost_local = Inr r"
  obtains search_query response products out_of_stock_products alternatives facets where
    "build_enhanced_search_query env query language filters location price_range
       quality_grades availability_statuses boost_local = Inr search_query"
    "es_search env search_query page_size (from_index page page_size)
       (build_sort_criteria sort_by location) = Inr response"
    "process_hits query (or_default (hits_hits response) []) [] [] =
       Inr (products, out_of_stock_products)"
    "(if include_alternatives \<and> out_of_stock_products \<noteq> []
      then collect_alternatives env location (take 3 out_of_stock_products) []
      else Inr []) = Inr alternatives"
    "process_aggregations (or_default (aggregations response) []) [] = Inr facets"
    "page_size \<noteq> 0"
    "res_products r = products" "res_out_of_stock r = out_of_stock_products"
    "res_alternatives r = alternatives"
    "res_total r = or_default (hits_total response) 0"
    "res_page r = page" "res_page_size r = page_size"
    "res_total_pages r = (res_total r + page_size - 1) div page_size"
    "res_has_next r = (page * page_size < res_total r)"
    "res_has_prev r = (1 < page)"
    "res_error r = None"
proof -
  from assms obtain search_query where
    q: "build_enhanced_search_query env query language filters location price_range
          quality_grades availability_statuses boost_local = Inr search_query"
    unfolding search_products_try_def by (simp split: sum.splits)
  from assms q obtain response where
    s: "es_search env search_query page_size (from_index page page_size)
          (build_sort_criteria sort_by location) = Inr response"
    unfolding search_products_try_def by (simp split: sum.splits)
  from assms q s obtain products out_of_stock_products where
    h: "process_hits query (or_default (hits_hits response) []) [] [] =
          Inr (products, out_of_stock_products)"
    unfolding search_products_try_def process_results_def Let_def by (simp split: sum.splits prod.splits)
  from assms q s h obtain alternatives where
    a: "(if include_alternatives \<and> out_of_stock_products \<noteq> []
         then collect_alternatives env location (take 3 out_of_stock_products) []
         else Inr []) = Inr alternatives"
    unfolding search_products_try_def process_results_def Let_def by (simp split: sum.splits)
  from assms q s h a obtain facets where
    f: "process_aggregations (or_default (aggregations response) []) [] = Inr facets"
    unfolding search_products_try_def process_results_def Let_def by (simp split: sum.splits)
  from assms q s h a f have z: "page_size \<noteq> 0"
    unfolding search_products_try_def process_results_def Let_def by (simp split: if_splits)
  from assms q s h a f z have r:
    "r = \<lparr>res_products = products,
          res_out_of_stock = out_of_stock_products,
          res_alternatives = alternatives,
          res_suggestions =
            (if or_default (hits_total response) 0 < 5 \<and> query \<noteq> []
             then get_search_suggestions env query language 3 else []),
          res_facets = facets,
          res_total = or_default (hits_total response) 0,
          res_page = page,
          res_page_size = page_size,
          res_total_pages = (or_default (hits_total response) 0 + page_size - 1) div page_size,
          res_has_next = (page * page_size < or_default (hits_total response) 0),
          res_has_prev = (1 < page),
          res_search_metadata =
            Some \<lparr>md_query = query, md_language = language_value language,
                  filters_applied = length (or_default filters []),
                  location_boost = boost_local,
                  alternatives_included = include_alternatives\<rparr>,
          res_error = None\<rparr>"
    unfolding search_products_try_def process_results_def Let_def by simp
  show thesis
    by (rule that [OF q s h a f z]) (simp_all add: r)
qed

text \<open>The envelope has no error exactly when the \<^verbatim>\<open>try\<close> block completed.\<close>

lemma search_products_success:
  assumes "res_error (search_products env query language filters location price_range
       quality_grades availability_statuses page page_size sort_by include_alternatives
       boost_local) = None"
  shows "search_products_try env query language filters location price_range quality_grades
       availability_statuses page page_size sort_by include_alternatives boost_local =
     Inr (search_products env query language filters location price_range
       quality_grades availability_statuses page page_size sort_by include_alternatives
       boost_local)"
  using assms by (simp add: search_products_def error_envelope_def split: sum.splits)

lemma search_products_failure:
  assumes "search_products_try env query language filters location price_range quality_grades
       availability_statuses page page_size sort_by include_alternatives boost_local = Inl e"
  shows "search_products env query language filters location price_range
       quality_grades availability_statuses page page_size sort_by include_alternatives
       boost_local = error_envelope page page_size e"
  using assms by (simp add: search_products_def)

text \<open>
  C1, as the code has it.  For every search call that completes without an internal
  failure (the envelope carries no error) and every list of hits the store returned for
  it, the two result lists partition the hits: their lengths add up to the number of
  hits, every document of \<open>out_of_stock\<close> has the availability status
  \<^verbatim>\<open>out_of_stock\<close>, and no document of \<open>products\<close> has it.
\<close>

theorem search_products_partition:
  assumes "build_enhanced_search_query env query language filters location price_range
             quality_grades availability_statuses boost_local = Inr search_query"
    and "es_search env search_query page_size (from_index page page_size)
             (build_sort_criteria sort_by location) = Inr response"
    and "res_error (search_products env query language filters location price_range
       quality_grades availability_statuses page page_size sort_by include_alternatives
       boost_local) = None"
  shows "length (res_products (search_products env query language filters location price_range
       quality_grades availability_statuses page page_size sort_by include_alternatives
       boost_local)) +
     length (res_out_of_stock (search_products env query language filters location price_range
       quality_grades availability_statuses page page_size sort_by include_alternatives
       boost_local)) = length (or_default (hits_hits response) []) \<and>
     (\<forall>p \<in> set (res_out_of_stock (search_products env query language filters location
          price_range quality_grades availability_statuses page page_size sort_by
          include_alternatives boost_local)).
        map_of p ''availability_status'' = Some (VStr ''out_of_stock'')) \<and>
     (\<forall>p \<in> set (res_products (search_products env query language filters location
          price_range quality_grades availability_statuses page page_size sort_by
          include_alternatives boost_local)).
        map_of p ''availability_status'' \<noteq> Some (VStr ''out_of_stock''))"
proof -
  let ?r = "search_products env query language filters location price_range
       quality_grades availability_statuses page page_size sort_by include_alternatives
       boost_local"
  from search_products_success [OF assms(3)]
  obtain q' response' where
    q': "build_enhanced_search_query env query language filters location price_range
             quality_grades availability_statuses boost_local = Inr q'"
    and s': "es_search env q' page_size (from_index page page_size)
             (build_sort_criteria sort_by location) = Inr response'"
    and h: "process_hits query (or_default (hits_hits response') []) [] [] =
        Inr (res_products ?r, res_out_of_stock ?r)"
    by (elim search_products_try_Inr) simp
  from q' assms(1) have "q' = search_query" by simp
  with s' assms(2) have "response' = response" by simp
  with h have h': "process_hits query (or_default (hits_hits response) []) [] [] =
        Inr (res_products ?r, res_out_of_stock ?r)" by simp
  have l: "length (res_products ?r) + length (res_out_of_stock ?r) =
      length (or_default (hits_hits response) [])"
    using process_hits_length [OF h'] by simp
  have o: "\<forall>p \<in> set (res_out_of_stock ?r).
      map_of p ''availability_status'' = Some (VStr ''out_of_stock'')"
    by (rule process_hits_out_of_stock [OF h']) simp
  have p: "\<forall>p \<in> set (res_products ?r).
      map_of p ''availability_status'' \<noteq> Some (VStr ''out_of_stock'')"
    by (rule process_hits_products [OF h']) simp
  from l o p show ?thesis by (intro conjI)
qed

text \<open>One available and two out-of-stock hits: the lists have 1 and 2 documents.\<close>

theorem search_products_partition_witness:
  "build_enhanced_search_query shop_env ''rice'' ENGLISH None None None None None True = Inr ''rice'' \<and>
   es_search shop_env ''rice'' 20 (from_index 1 20) (build_sort_criteria ''price_asc'' None) =
     Inr shop_response \<and>
   res_error (search_products shop_env ''rice'' ENGLISH None None None None None 1 20
     ''price_asc'' True True) = None \<and>
   length (or_default (hits_hits shop_response) []) = 3 \<and>
   length (res_products (search_products shop_env ''rice'' ENGLISH None None None None None 1 20
     ''price_asc'' True True)) +
   length (res_out_of_stock (search_products shop_env ''rice'' ENGLISH None None None None None
     1 20 ''price_asc'' True True)) = 3 \<and>
   length (res_out_of_stock (search_products shop_env ''rice'' ENGLISH None None None None None
     1 20 ''price_asc'' True True)) = 2"
proof -
  have b: "build_enhanced_search_query shop_env ''rice'' ENGLISH None None None None None True = Inr ''rice''"
    by (simp add: example_defs)
  have s: "es_search shop_env ''rice'' 20 (from_index 1 20) (build_sort_criteria ''price_asc'' None) =
     Inr shop_response"
    by (simp add: shop_env_def example_env_def)
  have e: "res_error (search_products shop_env ''rice'' ENGLISH None None None None None 1 20
     ''price_asc'' True True) = None"
    by (simp add: search_defs example_defs)
  have l: "length (or_default (hits_hits shop_response) []) = 3"
    by (simp add: shop_response_def or_default_def)
  from search_products_partition [OF b s e] l
  have "length (res_products (search_products shop_env ''rice'' ENGLISH None None None None None 1 20
     ''price_asc'' True True)) +
   length (res_out_of_stock (search_products shop_env ''rice'' ENGLISH None None None None None
     1 20 ''price_asc'' True True)) = 3" by simp
  moreover have "length (res_out_of_stock (search_products shop_env ''rice'' ENGLISH None None
     None None None 1 20 ''price_asc'' True True)) = 2"
    by (simp add: search_defs example_defs)
  ultimately show ?thesis using b s e l by (intro conjI)
qed

text \<open>
  The claim as stated covers every call.  When a hit comes back with a \<^verbatim>\<open>null\<close>
  score, the comparison \<^verbatim>\<open>score > 5\<close> raises, the handler returns the empty
  envelope, and the one returned hit is in neither list.
\<close>

theorem search_products_partition_counterexample:
  "es_search unscored_env ''rice'' 20 (from_index 1 20) (build_sort_criteria ''relevance'' None) =
     Inr unscored_response \<and>
   length (or_default (hits_hits unscored_response) []) = 1 \<and>
   length (res_products (search_products unscored_env ''rice'' ENGLISH None None None None None
     1 20 ''relevance'' True True)) +
   length (res_out_of_stock (search_products unscored_env ''rice'' ENGLISH None None None None
     None 1 20 ''relevance'' True True)) = 0"
  by (simp add: search_defs example_defs)

text \<open>
  C4.  For every successful search with a page size of at least 1, the envelope has
  \<open>total_pages = ceil (total / page_size)\<close>, \<open>has_next = (page * page_size < total)\<close> and
  \<open>has_prev = (page > 1)\<close>, for the page and page size of the call.  The total is the
  store's; the equations do not need it to be non-negative.
\<close>

theorem search_products_pagination:
  assumes "res_error (search_products env query language filters location price_range
       quality_grades availability_statuses page page_size sort_by include_alternatives
       boost_local) = None"
    and "1 \<le> page_size"
  shows "res_total_pages (search_products env query language filters location price_range
       quality_grades availability_statuses page page_size sort_by include_alternatives
       boost_local) =
     \<lceil>real_of_int (res_total (search_products env query language filters location price_range
       quality_grades availability_statuses page page_size sort_by include_alternatives
       boost_local)) / real_of_int page_size\<rceil> \<and>
   res_has_next (search_products env query language filters location price_range
       quality_grades availability_statuses page page_size sort_by include_alternatives
       boost_local) =
     (page * page_size < res_total (search_products env query language filters location
       price_range quality_grades availability_statuses page page_size sort_by
       include_alternatives boost_local)) \<and>
   res_has_prev (search_products env query language filters location price_range
       quality_grades availability_statuses page page_size sort_by include_alternatives
       boost_local) = (1 < page) \<and>
   res_page (search_products env query language filters location price_range
       quality_grades availability_statuses page page_size sort_by include_alternatives
       boost_local) = page \<and>
   res_page_size (search_products env query language filters location price_range
       quality_grades availability_statuses page page_size sort_by include_alternatives
       boost_local) = page_size"
proof -
  let ?r = "search_products env query language filters location price_range
       quality_grades availability_statuses page page_size sort_by include_alternatives
       boost_local"
  note t = search_products_success [OF assms(1)]
  have 1: "res_total_pages ?r = (res_total ?r + page_size - 1) div page_size"
    by (rule search_products_try_Inr [OF t])
  have 2: "res_has_next ?r = (page * page_size < res_total ?r)"
    by (rule search_products_try_Inr [OF t])
  have 3: "res_has_prev ?r = (1 < page)"
    by (rule search_products_try_Inr [OF t])
  have 4: "res_page ?r = page"
    by (rule search_products_try_Inr [OF t])
  have 5: "res_page_size ?r = page_size"
    by (rule search_products_try_Inr [OF t])
  have "(res_total ?r + page_size - 1) div page_size =
      \<lceil>real_of_int (res_total ?r) / real_of_int page_size\<rceil>"
    using assms(2) by (intro ceil_div) simp
  with 1 have 6: "res_total_pages ?r = \<lceil>real_of_int (res_total ?r) / real_of_int page_size\<rceil>"
    by simp
  from 6 2 3 4 5 show ?thesis by (intro conjI)
qed

text \<open>45 matches in pages of 20: three pages, and page 1 has a next page and no previous one.\<close>

theorem search_products_pagination_witness:
  "res_error (search_products shop_env ''rice'' ENGLISH None None None None None 1 20
     ''price_asc'' True True) = None \<and> (1::int) \<le> 20 \<and>
   res_total (search_products shop_env ''rice'' ENGLISH None None None None None 1 20
     ''price_asc'' True True) = 45 \<and>
   res_total_pages (search_products shop_env ''rice'' ENGLISH None None None None None 1 20
     ''price_asc'' True True) = 3 \<and>
   res_has_next (search_products shop_env ''rice'' ENGLISH None None None None None 1 20
     ''price_asc'' True True) = True \<and>
   res_has_prev (search_products shop_env ''rice'' ENGLISH None None None None None 1 20
     ''price_asc'' True True) = False"
proof -
  have e: "res_error (search_products shop_env ''rice'' ENGLISH None None None None None 1 20
     ''price_asc'' True True) = None"
    by (simp add: search_defs example_defs)
  have t: "res_total (search_products shop_env ''rice'' ENGLISH None None None None None 1 20
     ''price_asc'' True True) = 45"
    by (simp add: search_defs example_defs)
  have c: "\<lceil>real_of_int 45 / real_of_int 20\<rceil> = (3::int)"
    by (simp add: ceiling_divide_eq_div)
  have o: "(1::int) \<le> 20" by simp
  from search_products_pagination [OF e o] t c
  have "res_total_pages (search_products shop_env ''rice'' ENGLISH None None None None None 1 20
     ''price_asc'' True True) = 3 \<and>
   res_has_next (search_products shop_env ''rice'' ENGLISH None None None None None 1 20
     ''price_asc'' True True) = True \<and>
   res_has_prev (search_products shop_env ''rice'' ENGLISH None None None None None 1 20
     ''price_asc'' True True) = False"
    by simp
  with e o t show ?thesis by (intro conjI) simp_all
qed

text \<open>Both return statements hand back the page and the page size of the call.\<close>

lemma search_products_page:
  "res_page (search_products env query language filters location price_range
       quality_grades availability_statuses page page_size sort_by include_alternatives
       boost_local) = page \<and>
   res_page_size (search_products env query language filters location price_range
       quality_grades availability_statuses page page_size sort_by include_alternatives
       boost_local) = page_size"
proof (cases "search_products_try env query language filters location price_range
       quality_grades availability_statuses page page_size sort_by include_alternatives
       boost_local")
  case (Inl e)
  then show ?thesis
    by (simp add: search_products_def error_envelope_def)
next
  case (Inr r)
  have "res_page r = page"
    by (rule search_products_try_Inr [OF Inr])
  moreover have "res_page_size r = page_size"
    by (rule search_products_try_Inr [OF Inr])
  ultimately show ?thesis using Inr
    by (simp add: search_products_def)
qed

text \<open>
  C5, as the code has it.  \<open>search_products\<close> uses the page and the page size as they
  are passed, with no validation or clamping.  Once the query is built, it asks the store
  for \<open>page_size\<close> hits at offset \<open>(page - 1) * page_size\<close>, computed from the raw
  values, and the answer to exactly this request decides the result: an exception gives
  the error envelope of that exception, a response gives what \<open>process_results\<close> makes of
  that response.  The envelope returns \<open>page\<close> and \<open>page_size\<close> unchanged.
\<close>

theorem search_products_offset:
  assumes "build_enhanced_search_query env query language filters location price_range
      quality_grades availability_statuses boost_local = Inr search_query"
  shows "search_products env query language filters location price_range
       quality_grades availability_statuses page page_size sort_by include_alternatives
       boost_local =
     (case es_search env search_query page_size ((page - 1) * page_size)
             (build_sort_criteria sort_by location) of
        Inl e \<Rightarrow> error_envelope page page_size e
      | Inr response \<Rightarrow>
          (case process_results env query language filters location page page_size
                  include_alternatives boost_local response of
             Inl e \<Rightarrow> error_envelope page page_size e
           | Inr result \<Rightarrow> result)) \<and>
   res_page (search_products env query language filters location price_range
       quality_grades availability_statuses page page_size sort_by include_alternatives
       boost_local) = page \<and>
   res_page_size (search_products env query language filters location price_range
       quality_grades availability_statuses page page_size sort_by include_alternatives
       boost_local) = page_size"
proof -
  have "search_products env query language filters location price_range
       quality_grades availability_statuses page page_size sort_by include_alternatives
       boost_local =
     (case es_search env search_query page_size ((page - 1) * page_size)
             (build_sort_criteria sort_by location) of
        Inl e \<Rightarrow> error_envelope page page_size e
      | Inr response \<Rightarrow>
          (case process_results env query language filters location page page_size
                  include_alternatives boost_local response of
             Inl e \<Rightarrow> error_envelope page page_size e
           | Inr result \<Rightarrow> result))"
    using assms
    by (simp add: search_products_def search_products_try_def from_index_def
        split: sum.splits)
  with search_products_page [of env query language filters location price_range
       quality_grades availability_statuses page page_size sort_by include_alternatives
       boost_local]
  show ?thesis by (intro conjI) simp_all
qed

text \<open>
  Page 0 with page size 20 on the store that reports the offset as the total: the query is
  built, the store is asked at offset -20 and answers with total -20, and the envelope is
  made of that answer, with total -20, page 0 and page size 20.
\<close>

theorem search_products_offset_witness:
  "build_enhanced_search_query echo_env ''rice'' ENGLISH None None None None None True =
     Inr ''rice'' \<and>
   es_search echo_env ''rice'' 20 ((0 - 1) * 20) (build_sort_criteria ''relevance'' None) =
     Inr \<lparr>hits_total = Some (- 20), hits_hits = Some [], aggregations = None\<rparr> \<and>
   search_products echo_env ''rice'' ENGLISH None None None None None 0 20 ''relevance'' True
     True =
     (case process_results echo_env ''rice'' ENGLISH None None 0 20 True True
             \<lparr>hits_total = Some (- 20), hits_hits = Some [], aggregations = None\<rparr> of
        Inl e \<Rightarrow> error_envelope 0 20 e
      | Inr result \<Rightarrow> result) \<and>
   res_error (search_products echo_env ''rice'' ENGLISH None None None None None 0 20
     ''relevance'' True True) = None \<and>
   res_total (search_products echo_env ''rice'' ENGLISH None None None None None 0 20
     ''relevance'' True True) = - 20 \<and>
   res_page (search_products echo_env ''rice'' ENGLISH None None None None None 0 20
     ''relevance'' True True) = 0 \<and>
   res_page_size (search_products echo_env ''rice'' ENGLISH None None None None None 0 20
     ''relevance'' True True) = 20"
proof -
  have b: "build_enhanced_search_query echo_env ''rice'' ENGLISH None None None None None True =
     Inr ''rice''"
    by (simp add: example_defs)
  have s: "es_search echo_env ''rice'' 20 ((0 - 1) * 20)
      (build_sort_criteria ''relevance'' None) =
     Inr \<lparr>hits_total = Some (- 20), hits_hits = Some [], aggregations = None\<rparr>"
    by (simp add: example_defs)
  note t = search_products_offset [where env = echo_env and page = 0 and page_size = 20
      and sort_by = "''relevance''" and include_alternatives = True, OF b]
  have r: "search_products echo_env ''rice'' ENGLISH None None None None None 0 20
      ''relevance'' True True =
     (case process_results echo_env ''rice'' ENGLISH None None 0 20 True True
             \<lparr>hits_total = Some (- 20), hits_hits = Some [], aggregations = None\<rparr> of
        Inl e \<Rightarrow> error_envelope 0 20 e
      | Inr result \<Rightarrow> result)"
    using t s by simp
  have p: "process_results echo_env ''rice'' ENGLISH None None 0 20 True True
      \<lparr>hits_total = Some (- 20), hits_hits = Some [], aggregations = None\<rparr> =
     Inr \<lparr>res_products = [], res_out_of_stock = [], res_alternatives = [],
          res_suggestions = [], res_facets = [], res_total = - 20, res_page = 0,
          res_page_size = 20, res_total_pages = - 1, res_has_next = False,
          res_has_prev = False,
          res_search_metadata =
            Some \<lparr>md_query = ''rice'', md_language = ''en'', filters_applied = 0,
                  location_boost = True, alternatives_included = True\<rparr>,
          res_error = None\<rparr>"
    by (simp add: process_results_def or_default_def example_defs)
  from b s r show ?thesis
    by (intro conjI) (simp_all add: p)
qed

text \<open>
  The claim as stated has the inputs clamped.  The store of \<open>echo_env\<close> reports the offset
  of the request as the total: for page 0 it is asked at offset -20 and the envelope says
  page 0, and a page size of 500 is passed on and returned as it is.
\<close>

theorem search_products_offset_counterexample:
  "res_total (search_products echo_env ''rice'' ENGLISH None None None None None 0 20
     ''relevance'' True True) = - 20 \<and>
   res_page (search_products echo_env ''rice'' ENGLISH None None None None None 0 20
     ''relevance'' True True) = 0 \<and>
   res_total (search_products echo_env ''rice'' ENGLISH None None None None None 3 500
     ''relevance'' True True) = 1000 \<and>
   res_page_size (search_products echo_env ''rice'' ENGLISH None None None None None 3 500
     ''relevance'' True True) = 500"
  by (simp add: search_defs example_defs)

text \<open>A failure at any stage of the \<^verbatim>\<open>try\<close> block leaves the block with an exception.\<close>

lemma search_products_try_fails:
  assumes "build_enhanced_search_query env query language filters location price_range
        quality_grades availability_statuses boost_local = Inl e \<or>
     (\<exists>search_query.
        build_enhanced_search_query env query language filters location price_range
          quality_grades availability_statuses boost_local = Inr search_query \<and>
        (es_search env search_query page_size (from_index page page_size)
           (build_sort_criteria sort_by location) = Inl e \<or>
         (\<exists>response.
            es_search env search_query page_size (from_index page page_size)
              (build_sort_criteria sort_by location) = Inr response \<and>
            (process_hits query (or_default (hits_hits response) []) [] [] = Inl e \<or>
             (\<exists>products out_of_stock_products.
                process_hits query (or_default (hits_hits response) []) [] [] =
                  Inr (products, out_of_stock_products) \<and>
                include_alternatives \<and>
                collect_alternatives env location (take 3 out_of_stock_products) [] = Inl e) \<or>
             process_aggregations (or_default (aggregations response) []) [] = Inl e \<or>
             page_size = 0))))"
  shows "\<exists>e'. search_products_try env query language filters location price_range
       quality_grades availability_statuses page page_size sort_by include_alternatives
       boost_local = Inl e'"
proof (cases "search_products_try env query language filters location price_range
       quality_grades availability_statuses page page_size sort_by include_alternatives
       boost_local")
  case (Inl e')
  then show ?thesis by simp
next
  case (Inr r)
  from Inr obtain search_query response products out_of_stock_products alternatives facets
    where q: "build_enhanced_search_query env query language filters location price_range
        quality_grades availability_statuses boost_local = Inr search_query"
      and s: "es_search env search_query page_size (from_index page page_size)
        (build_sort_criteria sort_by location) = Inr response"
      and h: "process_hits query (or_default (hits_hits response) []) [] [] =
        Inr (products, out_of_stock_products)"
      and a: "(if include_alternatives \<and> out_of_stock_products \<noteq> []
        then collect_alternatives env location (take 3 out_of_stock_products) []
        else Inr []) = Inr alternatives"
      and f: "process_aggregations (or_default (aggregations response) []) [] = Inr facets"
      and z: "page_size \<noteq> 0"
    by (rule search_products_try_Inr)
  have c: "collect_alternatives env location (take 3 out_of_stock_products) [] \<noteq> Inl e"
    if "include_alternatives"
  proof (cases "out_of_stock_products = []")
    case True
    then show ?thesis by simp
  next
    case False
    with a that show ?thesis by simp
  qed
  from assms q s h f z c have False
    by auto
  then show ?thesis ..
qed

text \<open>
  C6.  Whatever the input, when an exception is raised while the query is built, while the
  store searches, or while the result is processed (the loop over the hits, the lookup of
  alternatives, the facets, the page count), \<open>search_products\<close> returns the envelope with
  all lists and the facets empty, total 0, no pages, no next and no previous page, and an
  error; it returns the page and the page size of the call.  It has no other outcome
  than an envelope: the handler catches every exception.
\<close>

theorem search_products_failure_envelope:
  assumes "build_enhanced_search_query env query language filters location price_range
        quality_grades availability_statuses boost_local = Inl e \<or>
     (\<exists>search_query.
        build_enhanced_search_query env query language filters location price_range
          quality_grades availability_statuses boost_local = Inr search_query \<and>
        (es_search env search_query page_size (from_index page page_size)
           (build_sort_criteria sort_by location) = Inl e \<or>
         (\<exists>response.
            es_search env search_query page_size (from_index page page_size)
              (build_sort_criteria sort_by location) = Inr response \<and>
            (process_hits query (or_default (hits_hits response) []) [] [] = Inl e \<or>
             (\<exists>products out_of_stock_products.
                process_hits query (or_default (hits_hits response) []) [] [] =
                  Inr (products, out_of_stock_products) \<and>
                include_alternatives \<and>
                collect_alternatives env location (take 3 out_of_stock_products) [] = Inl e) \<or>
             process_aggregations (or_default (aggregations response) []) [] = Inl e \<or>
             page_size = 0))))"
  shows "res_products (search_products env query language filters location
       price_range quality_grades availability_statuses page page_size sort_by
       include_alternatives boost_local) = [] \<and>
   res_out_of_stock (search_products env query language filters location
       price_range quality_grades availability_statuses page page_size sort_by
       include_alternatives boost_local) = [] \<and>
   res_alternatives (search_products env query language filters location
       price_range quality_grades availability_statuses page page_size sort_by
       include_alternatives boost_local) = [] \<and>
   res_suggestions (search_products env query language filters location
       price_range quality_grades availability_statuses page page_size sort_by
       include_alternatives boost_local) = [] \<and>
   res_facets (search_products env query language filters location
       price_range quality_grades availability_statuses page page_size sort_by
       include_alternatives boost_local) = [] \<and>
   res_total (search_products env query language filters location
       price_range quality_grades availability_statuses page page_size sort_by
       include_alternatives boost_local) = 0 \<and>
   res_total_pages (search_products env query language filters location
       price_range quality_grades availability_statuses page page_size sort_by
       include_alternatives boost_local) = 0 \<and>
   res_has_next (search_products env query language filters location
       price_range quality_grades availability_statuses page page_size sort_by
       include_alternatives boost_local) = False \<and>
   res_has_prev (search_products env query language filters location
       price_range quality_grades availability_statuses page page_size sort_by
       include_alternatives boost_local) = False \<and>
   res_page (search_products env query language filters location
       price_range quality_grades availability_statuses page page_size sort_by
       include_alternatives boost_local) = page \<and>
   res_page_size (search_products env query language filters location
       price_range quality_grades availability_statuses page page_size sort_by
       include_alternatives boost_local) = page_size \<and>
   res_error (search_products env query language filters location
       price_range quality_grades availability_statuses page page_size sort_by
       include_alternatives boost_local) \<noteq> None"
proof -
  from search_products_try_fails [OF assms] obtain e' where
    "search_products_try env query language filters location price_range quality_grades
       availability_statuses page page_size sort_by include_alternatives boost_local = Inl e'"
    by blast
  then have "search_products env query language filters location price_range
       quality_grades availability_statuses page page_size sort_by include_alternatives
       boost_local = error_envelope page page_size e'"
    by (rule search_products_failure)
  then show ?thesis
    by (simp add: error_envelope_def)
qed

text \<open>The store is down: the query is built, the search raises, the envelope is the empty one.\<close>

theorem search_products_failure_envelope_witness:
  "build_enhanced_search_query down_env ''rice'' ENGLISH None None None None None True =
     Inr ''rice'' \<and>
   es_search down_env ''rice'' 20 (from_index 1 20) (build_sort_criteria ''relevance'' None) =
     Inl (Raised ''connection refused'') \<and>
   res_products (search_products down_env ''rice'' ENGLISH None None None None
       None 1 20 ''relevance'' True True) = [] \<and>
   res_out_of_stock (search_products down_env ''rice'' ENGLISH None None None None
       None 1 20 ''relevance'' True True) = [] \<and>
   res_alternatives (search_products down_env ''rice'' ENGLISH None None None None
       None 1 20 ''relevance'' True True) = [] \<and>
   res_suggestions (search_products down_env ''rice'' ENGLISH None None None None
       None 1 20 ''relevance'' True True) = [] \<and>
   res_facets (search_products down_env ''rice'' ENGLISH None None None None
       None 1 20 ''relevance'' True True) = [] \<and>
   res_total (search_products down_env ''rice'' ENGLISH None None None None
       None 1 20 ''relevance'' True True) = 0 \<and>
   res_total_pages (search_products down_env ''rice'' ENGLISH None None None None
       None 1 20 ''relevance'' True True) = 0 \<and>
   res_has_next (search_products down_env ''rice'' ENGLISH None None None None
       None 1 20 ''relevance'' True True) = False \<and>
   res_has_prev (search_products down_env ''rice'' ENGLISH None None None None
       None 1 20 ''relevance'' True True) = False \<and>
   res_page (search_products down_env ''rice'' ENGLISH None None None None
       None 1 20 ''relevance'' True True) = 1 \<and>
   res_page_size (search_products down_env ''rice'' ENGLISH None None None None
       None 1 20 ''relevance'' True True) = 20 \<and>
   res_error (search_products down_env ''rice'' ENGLISH None None None None
       None 1 20 ''relevance'' True True) = Some ''connection refused''"
proof -
  have b: "build_enhanced_search_query down_env ''rice'' ENGLISH None None None None None True =
     Inr ''rice''"
    by (simp add: example_defs)
  have s: "es_search down_env ''rice'' 20 (from_index 1 20)
      (build_sort_criteria ''relevance'' None) = Inl (Raised ''connection refused'')"
    by (simp add: example_defs)
  have e: "res_error (search_products down_env ''rice'' ENGLISH None None None None
       None 1 20 ''relevance'' True True) = Some ''connection refused''"
    by (simp add: search_defs example_defs)
  note t = search_products_failure_envelope [where env = down_env and query = "''rice''"
      and language = ENGLISH and filters = None and location = None and price_range = None
      and quality_grades = None and availability_statuses = None and page = 1
      and page_size = 20 and sort_by = "''relevance''" and include_alternatives = True
      and boost_local = True and e = "Raised ''connection refused''"]
  have "build_enhanced_search_query down_env ''rice'' ENGLISH None None None None None True =
        Inl (Raised ''connection refused'') \<or>
     (\<exists>search_query.
        build_enhanced_search_query down_env ''rice'' ENGLISH None None None None None True =
          Inr search_query \<and>
        (es_search down_env search_query 20 (from_index 1 20)
           (build_sort_criteria ''relevance'' None) = Inl (Raised ''connection refused'') \<or>
         (\<exists>response.
            es_search down_env search_query 20 (from_index 1 20)
              (build_sort_criteria ''relevance'' None) = Inr response \<and>
            (process_hits ''rice'' (or_default (hits_hits response) []) [] [] =
               Inl (Raised ''connection refused'') \<or>
             (\<exists>products out_of_stock_products.
                process_hits ''rice'' (or_default (hits_hits response) []) [] [] =
                  Inr (products, out_of_stock_products) \<and>
                True \<and>
                collect_alternatives down_env None (take 3 out_of_stock_products) [] =
                  Inl (Raised ''connection refused'')) \<or>
             process_aggregations (or_default (aggregations response) []) [] =
               Inl (Raised ''connection refused'') \<or>
             (20::int) = 0))))"
    using b s by blast
  from t [OF this] b s e show ?thesis
    by (intro conjI) simp_all
qed

text \<open>
  The alternatives are the lookups for the out-of-stock documents handed to the loop, one
  after the other, each made with limit 2; nothing is removed from the concatenation.
\<close>

lemma collect_alternatives_concat:
  "collect_alternatives env location ps acc = Inr alternatives \<Longrightarrow>
   alternatives =
     acc @ concat (map (\<lambda>p. get_alternative_products env (the (map_of p ''id'')) location 2) ps)"
proof (induction ps arbitrary: acc)
  case Nil
  then show ?case by simp
next
  case (Cons p ps)
  from Cons.prems obtain oos_id where i: "map_of p ''id'' = Some oos_id"
    by (simp split: option.splits)
  let ?found = "get_alternative_products env oos_id location 2"
  from Cons.prems i
  have "collect_alternatives env location ps (if ?found \<noteq> [] then acc @ ?found else acc) =
      Inr alternatives"
    by (simp add: Let_def)
  from Cons.IH [OF this] i show ?case
    by (cases "?found = []") simp_all
qed

lemma search_products_alternatives:
  assumes "res_error (search_products env query language filters location price_range
       quality_grades availability_statuses page page_size sort_by include_alternatives
       boost_local) = None"
    and "include_alternatives"
  shows "res_alternatives (search_products env query language filters location price_range
       quality_grades availability_statuses page page_size sort_by include_alternatives
       boost_local) =
     concat (map (\<lambda>p. get_alternative_products env (the (map_of p ''id'')) location 2)
       (take 3 (res_out_of_stock (search_products env query language filters location
          price_range quality_grades availability_statuses page page_size sort_by
          include_alternatives boost_local))))"
proof -
  let ?r = "search_products env query language filters location price_range
       quality_grades availability_statuses page page_size sort_by include_alternatives
       boost_local"
  from search_products_success [OF assms(1)]
  obtain out_of_stock_products alternatives where
    "(if include_alternatives \<and> out_of_stock_products \<noteq> []
      then collect_alternatives env location (take 3 out_of_stock_products) []
      else Inr []) = Inr alternatives"
    and "res_out_of_stock ?r = out_of_stock_products"
    and "res_alternatives ?r = alternatives"
    by (rule search_products_try_Inr)
  then have a: "(if include_alternatives \<and> res_out_of_stock ?r \<noteq> []
      then collect_alternatives env location (take 3 (res_out_of_stock ?r)) []
      else Inr []) = Inr (res_alternatives ?r)"
    by (auto split: if_splits)
  show ?thesis
  proof (cases "res_out_of_stock ?r = []")
    case True
    with a show ?thesis by simp
  next
    case False
    with a assms(2)
    have "collect_alternatives env location (take 3 (res_out_of_stock ?r)) [] =
        Inr (res_alternatives ?r)"
      by simp
    from collect_alternatives_concat [OF this] show ?thesis by simp
  qed
qed

text \<open>
  C7.  Two out-of-stock hits whose lookups find the same alternative: the document with id
  \<^verbatim>\<open>barley\<close> is in the assembled list twice.
\<close>

theorem search_products_alternatives_duplicate:
  "res_out_of_stock (search_products shop_env ''rice'' ENGLISH None None None None None 1 20
     ''price_asc'' True True) \<noteq> [] \<and>
   res_alternatives (search_products shop_env ''rice'' ENGLISH None None None None None 1 20
     ''price_asc'' True True) =
     [example_doc ''barley'' ''available'', example_doc ''barley'' ''available''] \<and>
   \<not> distinct (map (\<lambda>d. map_of d ''id'')
     (res_alternatives (search_products shop_env ''rice'' ENGLISH None None None None None 1 20
        ''price_asc'' True True)))"
  by (simp add: search_defs example_defs)

text \<open>
  The sort list always ends with the creation date, descending, and for every
  \<open>sort_by\<close> other than \<^verbatim>\<open>relevance\<close> the score, descending, stands right before it.
\<close>

lemma build_sort_criteria_last:
  "last (build_sort_criteria sort_by location) = Field_sort ''created_at'' Desc"
  by (simp add: build_sort_criteria_def Let_def)

lemma build_sort_criteria_score:
  "sort_by \<noteq> ''relevance'' \<Longrightarrow>
   \<exists>keys. build_sort_criteria sort_by location =
     keys @ [Field_sort ''_score'' Desc, Field_sort ''created_at'' Desc]"
  by (simp add: build_sort_criteria_def Let_def)

text \<open>
  C3.  For \<^verbatim>\<open>sort_by = "relevance"\<close> the sort list is the creation date alone: no
  branch adds the score, and the guard \<^verbatim>\<open>sort_by != "relevance"\<close> skips the line that
  appends it for every other value.
\<close>

theorem build_sort_criteria_relevance:
  "build_sort_criteria ''relevance'' location = [Field_sort ''created_at'' Desc] \<and>
   Field_sort ''_score'' Desc \<notin> set (build_sort_criteria ''relevance'' location)"
  by (simp add: build_sort_criteria_def Let_def)

end
